theory Spec2Isabelle
  imports Main
begin

section \<open>The Redshift connector of \<open>connector/rs_connect.py\<close>\<close>

text \<open>
  A shallow embedding of the class \<open>RedshiftConnector\<close>. The clause builders are pure
  functions on strings. The methods that talk to the database client, the secret store
  or the standard output are functions from the connector object to the updated object
  and a result; what they do to the outside world is recorded, in order, in the
  \<open>trace\<close> of the object. A raised exception is the result \<open>Inl e\<close>. The methods
  embedded are the clause builders, \<open>_execute\<close>, \<open>execute\<close>, \<open>retrieve\<close>,
  \<open>retrieve_dict\<close>, \<open>insert\<close>, \<open>update\<close>, \<open>create_table\<close>, \<open>get_credentials\<close>,
  \<open>_init_conn\<close>, \<open>close\<close> and \<open>switch_database\<close>.

  Naming: a leading underscore of a source name is written \<open>p_\<close>
  (\<open>_where\<close> is \<open>p_where\<close>, \<open>_execute\<close> is \<open>p_execute\<close>); the method
  \<open>insert\<close> is \<open>insert_row\<close>. The argument \<open>df.dtypes\<close> of \<open>create_table\<close> is
  \<open>dtypes\<close>.

  Data: a mapping (\<open>data\<close>, the credentials, a row of a dict cursor) is the list of
  its items in iteration order; \<open>data.keys()\<close> is \<open>map fst data\<close> and
  \<open>data.values()\<close> is \<open>map snd data\<close>. Table, column and schema names, predicates
  and the \<open>returning\<close> column list are strings; \<open>limit\<close> and \<open>offset\<close> are
  integers or \<open>None\<close>.
\<close>

subsection \<open>Python values and strings\<close>

datatype pyval =
    PNone
  | PBool bool
  | PInt int
  | PStr string
  | PList "pyval list"
  | PDict "(string \<times> pyval) list"

text \<open>Python's truth test (\<open>if x:\<close>).\<close>

fun truthy :: "pyval \<Rightarrow> bool" where
  "truthy PNone = False"
| "truthy (PBool b) = b"
| "truthy (PInt i) = (i \<noteq> 0)"
| "truthy (PStr s) = (s \<noteq> [])"
| "truthy (PList xs) = (xs \<noteq> [])"
| "truthy (PDict kvs) = (kvs \<noteq> [])"

text \<open>\<open>a or b\<close> evaluates to \<open>a\<close> when \<open>a\<close> is true, else to \<open>b\<close>.\<close>

definition py_or :: "pyval \<Rightarrow> pyval \<Rightarrow> pyval" where
  "py_or a b = (if truthy a then a else b)"

text \<open>\<open>sep.join(xs)\<close>.\<close>

fun join_str :: "string \<Rightarrow> string list \<Rightarrow> string" where
  "join_str sep [] = []"
| "join_str sep [x] = x"
| "join_str sep (x # y # ys) = x @ sep @ join_str sep (y # ys)"

text \<open>\<open>s.rstrip(c)\<close> for a single character \<open>c\<close>: every trailing \<open>c\<close> goes.\<close>

definition rstrip_chr :: "char \<Rightarrow> string \<Rightarrow> string" where
  "rstrip_chr c s = rev (dropWhile (\<lambda>x. x = c) (rev s))"

text \<open>\<open>s.split(c)\<close> for a single character \<open>c\<close>; \<open>''''.split(c)\<close> is \<open>['''']\<close>.\<close>

fun split_str :: "char \<Rightarrow> string \<Rightarrow> string list" where
  "split_str c [] = [[]]"
| "split_str c (x # xs) =
     (if x = c then [] # split_str c xs
      else (case split_str c xs of
              [] \<Rightarrow> [[x]]
            | p # ps \<Rightarrow> (x # p) # ps))"

text \<open>\<open>''%d'' % n\<close>: the decimal numeral of an integer.\<close>

definition digit_chr :: "nat \<Rightarrow> char" where
  "digit_chr d = ''0123456789'' ! d"

function show_nat :: "nat \<Rightarrow> string" where
  "show_nat n = (if n < 10 then [digit_chr n] else show_nat (n div 10) @ [digit_chr (n mod 10)])"
  by pat_completeness auto
termination
  by (relation "measure (\<lambda>n. n)") auto

declare show_nat.simps [simp del]

definition show_int :: "int \<Rightarrow> string" where
  "show_int i = (if i < 0 then CHR ''-'' # show_nat (nat (- i)) else show_nat (nat i))"

text \<open>
  \<open>xs[i:]\<close>: a negative start counts from the end, and a start outside the list is
  clamped to it.
\<close>

definition py_slice_from :: "int \<Rightarrow> 'a list \<Rightarrow> 'a list" where
  "py_slice_from i xs =
     (let n = int (length xs);
          j = (if i < 0 then max (n + i) 0 else min i n)
      in drop (nat j) xs)"

subsection \<open>Exceptions, the client library and the connector object\<close>

text \<open>
  An exception with what \<open>str(e)\<close> needs: \<open>KeyError k\<close> has the missing key \<open>k\<close>,
  \<open>ClientError code msg\<close> is botocore's exception with
  \<open>e.response["Error"]["Code"] = code\<close> and the text \<open>msg\<close>, \<open>AssertionError\<close> is the
  failed \<open>assert\<close>, which has no message, and every other exception carries its
  message. \<open>OtherError\<close> is an exception of any other class.
\<close>

datatype error =
    KeyError string
  | TypeError string
  | AttributeError string
  | AssertionError
  | ClientError string string
  | DatabaseError string
  | ProgrammingError string
  | InterfaceError string
  | OtherError string

definition quoted :: "string \<Rightarrow> string" where
  "quoted s = [CHR 0x27] @ s @ [CHR 0x27]"

text \<open>
  \<open>str(e)\<close>, as the diagnostics print it. The text of a \<open>KeyError\<close> is the \<open>repr\<close> of
  its key, written here as it is for a key that has no quote, backslash or control
  character.
\<close>

fun error_str :: "error \<Rightarrow> string" where
  "error_str (KeyError k) = quoted k"
| "error_str (TypeError msg) = msg"
| "error_str (AttributeError msg) = msg"
| "error_str AssertionError = []"
| "error_str (ClientError code msg) = msg"
| "error_str (DatabaseError msg) = msg"
| "error_str (ProgrammingError msg) = msg"
| "error_str (InterfaceError msg) = msg"
| "error_str (OtherError msg) = msg"

text \<open>\<open>type(v).__name__\<close>.\<close>

fun type_name :: "pyval \<Rightarrow> string" where
  "type_name PNone = ''NoneType''"
| "type_name (PBool b) = ''bool''"
| "type_name (PInt i) = ''int''"
| "type_name (PStr s) = ''str''"
| "type_name (PList xs) = ''list''"
| "type_name (PDict kvs) = ''dict''"

text \<open>The exception of \<open>None.name\<close>.\<close>

definition none_has_no :: "string \<Rightarrow> error" where
  "none_has_no name =
     AttributeError (quoted ''NoneType'' @ '' object has no attribute '' @ quoted name)"

datatype cursor_kind = PlainCursor | RealDictCursor

text \<open>
  What the program does to the outside world: a line on the standard output, and the
  calls it makes of the database client, whether they succeed or raise. Connections are
  numbered in the order of the \<open>connect\<close> calls. \<open>Commit c\<close> and \<open>ConnClose c\<close> are
  \<open>commit()\<close> and \<open>close()\<close> on connection \<open>c\<close>, \<open>CursorClose c\<close> is \<open>close()\<close> on
  \<open>self.cursor\<close>, a cursor of connection \<open>c\<close>, and \<open>Execute c k sql params\<close> is
  \<open>execute(sql, params)\<close> on a cursor of kind \<open>k\<close> of connection \<open>c\<close>.
\<close>

datatype event =
    Print string
  | Connect pyval pyval string pyval pyval
  | Commit nat
  | CursorClose nat
  | ConnClose nat
  | Execute nat cursor_kind string pyval

text \<open>
  What the cursor holds after a statement that the server accepted: a result set (the
  column names, the rows and the row count) or, for a statement that returns no rows,
  the row count alone.
\<close>

record db_result =
  columns :: "string list"
  rows :: "pyval list list"
  rowcount :: int

datatype reply = ResultSet db_result | NoResultSet int

definition reply_rowcount :: "reply \<Rightarrow> int" where
  "reply_rowcount rp = (case rp of ResultSet r \<Rightarrow> rowcount r | NoResultSet n \<Rightarrow> n)"

text \<open>
  The collaborators the code calls and the repository does not contain: the secret
  store (\<open>get_secret_value\<close>), \<open>json.loads\<close>, \<open>psycopg2.connect\<close> (\<open>None\<close>: the
  connection opens), \<open>commit()\<close> on an open connection (\<open>None\<close>: it succeeds), the
  server's answer to a statement with its bind values on an open cursor, and Python's
  \<open>dict(t)\<close> for a tuple \<open>t\<close> of column values.
\<close>

record env =
  secret_value :: "string \<Rightarrow> error + (string \<times> string) list"
  json_loads :: "string \<Rightarrow> error + pyval"
  connect :: "pyval \<Rightarrow> pyval \<Rightarrow> string \<Rightarrow> pyval \<Rightarrow> pyval \<Rightarrow> error option"
  commit_outcome :: "nat \<Rightarrow> error option"
  answer :: "string \<Rightarrow> pyval \<Rightarrow> error + reply"
  dict_of_tuple :: "pyval list \<Rightarrow> error + (string \<times> pyval) list"

text \<open>
  The fields of a \<open>RedshiftConnector\<close>. \<open>conn\<close> is the number of the connection the
  object holds (\<open>None\<close>: the field is \<open>None\<close>), \<open>cursor\<close> the number of the
  connection \<open>self.cursor\<close> was made from.
\<close>

record connector =
  secret_id :: string
  credentials :: "(string \<times> pyval) list"
  host :: pyval
  port :: pyval
  user :: pyval
  pwd :: pyval
  db :: string
  conn :: "nat option"
  cursor :: nat
  trace :: "event list"

definition emit :: "event \<Rightarrow> connector \<Rightarrow> connector" where
  "emit ev self = self\<lparr>trace := trace self @ [ev]\<rparr>"

text \<open>
  The client library keeps what was closed: a connection is closed once \<open>close()\<close> was
  called on it, and a cursor counts as closed once it or its connection was closed.
\<close>

definition conn_closed :: "connector \<Rightarrow> nat \<Rightarrow> bool" where
  "conn_closed self c \<longleftrightarrow> ConnClose c \<in> set (trace self)"

definition cursor_closed :: "connector \<Rightarrow> bool" where
  "cursor_closed self \<longleftrightarrow>
     CursorClose (cursor self) \<in> set (trace self) \<or> conn_closed self (cursor self)"

text \<open>A row as a method returns it.\<close>

datatype row =
    TupleRow "pyval list"
  | RealDictRow "(string \<times> pyval) list"
  | DictRow "(string \<times> pyval) list"

datatype retval =
    RCount int
  | ROne "row option"
  | RRows "row list"

subsection \<open>Clause builders\<close>

text \<open>
  A where condition is a tuple whose component 0 is the predicate string:
  \<open>(p, rest)\<close> is the tuple \<open>(p, *rest)\<close>. An order is a tuple of strings.
\<close>

type_synonym where_cond = "string \<times> pyval list"

definition where_len :: "where_cond \<Rightarrow> nat" where
  "where_len w = Suc (length (snd w))"

definition p_where :: "where_cond option \<Rightarrow> string" where
  "p_where w =
     (case w of
        None \<Rightarrow> ''''
      | Some c \<Rightarrow> (if where_len c > 0 then '' WHERE '' @ fst c else ''''))"

fun p_order :: "string list option \<Rightarrow> string" where
  "p_order None = ''''"
| "p_order (Some []) = ''''"
| "p_order (Some [c]) = '' ORDER BY '' @ c"
| "p_order (Some (c # d # _)) = '' ORDER BY '' @ c @ '' '' @ d"

definition p_limit :: "int option \<Rightarrow> string" where
  "p_limit limit =
     (case limit of
        None \<Rightarrow> ''''
      | Some n \<Rightarrow> (if n \<noteq> 0 then '' LIMIT '' @ show_int n else ''''))"

definition p_offset :: "int option \<Rightarrow> string" where
  "p_offset offset =
     (case offset of
        None \<Rightarrow> ''''
      | Some n \<Rightarrow> (if n \<noteq> 0 then '' OFFSET '' @ show_int n else ''''))"

definition p_returning :: "string option \<Rightarrow> string" where
  "p_returning returning =
     (case returning of
        None \<Rightarrow> ''''
      | Some r \<Rightarrow> (if r \<noteq> [] then '' RETURNING '' @ r else ''''))"

definition p_select ::
  "string \<Rightarrow> string \<Rightarrow> where_cond option \<Rightarrow> string list option \<Rightarrow> int option \<Rightarrow> int option
    \<Rightarrow> string" where
  "p_select table cols w ord limit offset =
     ''SELECT '' @ cols @ '' FROM '' @ table
       @ p_where w @ p_order ord @ p_limit limit @ p_offset offset"

definition p_format_insert :: "(string \<times> pyval) list \<Rightarrow> string \<times> string" where
  "p_format_insert data =
     (let cols = join_str '','' (map fst data);
          vals = join_str '','' (map (\<lambda>_. ''%s'') data)
      in (cols, vals))"

definition p_format_update :: "(string \<times> pyval) list \<Rightarrow> string" where
  "p_format_update data = join_str ''=%s,'' (map fst data) @ ''=%s''"

subsection \<open>Executing statements\<close>

text \<open>
  \<open>cursor.execute(sql, params)\<close> as the client library answers it: a closed cursor
  raises, an open one gives the server's answer.
\<close>

definition cursor_execute :: "env \<Rightarrow> bool \<Rightarrow> string \<Rightarrow> pyval \<Rightarrow> error + reply" where
  "cursor_execute E closed sql params =
     (if closed then Inl (InterfaceError ''cursor already closed'') else answer E sql params)"

text \<open>\<open>_execute\<close>: the statement runs on \<open>self.cursor\<close>; the result is what the cursor holds.\<close>

definition p_execute ::
  "env \<Rightarrow> connector \<Rightarrow> string \<Rightarrow> pyval \<Rightarrow> connector \<times> (error + reply)" where
  "p_execute E self sql params =
     (let self1 = emit (Execute (cursor self) PlainCursor sql params) self
      in case cursor_execute E (cursor_closed self) sql params of
           Inl e \<Rightarrow> (emit (Print (''execute() failed due to: '' @ error_str e)) self1, Inl e)
         | Inr rp \<Rightarrow> (self1, Inr rp))"

text \<open>
  A dictionary built from key-value pairs: a later value of a key replaces the earlier
  one in place.
\<close>

fun dict_set :: "'k \<Rightarrow> 'v \<Rightarrow> ('k \<times> 'v) list \<Rightarrow> ('k \<times> 'v) list" where
  "dict_set k v [] = [(k, v)]"
| "dict_set k v ((k', v') # d) =
     (if k = k' then (k, v) # d else (k', v') # dict_set k v d)"

definition mk_dict :: "('k \<times> 'v) list \<Rightarrow> ('k \<times> 'v) list" where
  "mk_dict kvs = foldl (\<lambda>d kv. dict_set (fst kv) (snd kv) d) [] kvs"

text \<open>
  \<open>fetchall()\<close> and \<open>fetchone()\<close> of a cursor of the given kind. Both raise when the
  statement left no result set.
\<close>

definition fetch_row :: "cursor_kind \<Rightarrow> db_result \<Rightarrow> pyval list \<Rightarrow> row" where
  "fetch_row k r vs =
     (case k of
        PlainCursor \<Rightarrow> TupleRow vs
      | RealDictCursor \<Rightarrow> RealDictRow (mk_dict (zip (columns r) vs)))"

definition fetchall :: "cursor_kind \<Rightarrow> reply \<Rightarrow> error + row list" where
  "fetchall k rp =
     (case rp of
        NoResultSet n \<Rightarrow> Inl (ProgrammingError ''no results to fetch'')
      | ResultSet r \<Rightarrow> Inr (map (fetch_row k r) (rows r)))"

definition fetchone :: "cursor_kind \<Rightarrow> reply \<Rightarrow> error + row option" where
  "fetchone k rp =
     (case rp of
        NoResultSet n \<Rightarrow> Inl (ProgrammingError ''no results to fetch'')
      | ResultSet r \<Rightarrow> Inr (case rows r of [] \<Rightarrow> None | vs # _ \<Rightarrow> Some (fetch_row k r vs)))"

text \<open>
  \<open>dict(i)\<close> of a fetched row. A row of a dict cursor is a mapping and is copied; for the
  positional tuple of a plain cursor the result is Python's.
\<close>

fun py_dict :: "env \<Rightarrow> row \<Rightarrow> error + row" where
  "py_dict E (RealDictRow kvs) = Inr (DictRow kvs)"
| "py_dict E (DictRow kvs) = Inr (DictRow kvs)"
| "py_dict E (TupleRow vs) =
     (case dict_of_tuple E vs of Inl e \<Rightarrow> Inl e | Inr kvs \<Rightarrow> Inr (DictRow kvs))"

text \<open>\<open>[f(i) for i in xs]\<close>: the first exception ends the comprehension.\<close>

fun comprehend :: "('a \<Rightarrow> error + 'b) \<Rightarrow> 'a list \<Rightarrow> error + 'b list" where
  "comprehend f [] = Inr []"
| "comprehend f (x # xs) =
     (case f x of
        Inl e \<Rightarrow> Inl e
      | Inr y \<Rightarrow> (case comprehend f xs of Inl e \<Rightarrow> Inl e | Inr ys \<Rightarrow> Inr (y # ys)))"

text \<open>
  \<open>self.conn.cursor(...)\<close>: the number of the connection the new cursor belongs to.
  \<open>None\<close> has no method \<open>cursor\<close>, and a closed connection makes no cursor.
\<close>

definition conn_cursor :: "connector \<Rightarrow> error + nat" where
  "conn_cursor self =
     (case conn self of
        None \<Rightarrow> Inl (none_has_no ''cursor'')
      | Some c \<Rightarrow>
          (if conn_closed self c then Inl (InterfaceError ''connection already closed'')
           else Inr c))"

text \<open>
  \<open>execute\<close>: the cursor is chosen by the truth of \<open>return_type == 'd' or 'dict'\<close>;
  everything after the cursor is made stands in the \<open>try\<close>.
\<close>

definition execute_cursor_kind :: "pyval \<Rightarrow> cursor_kind" where
  "execute_cursor_kind return_type =
     (if truthy (py_or (PBool (return_type = PStr ''d'')) (PStr ''dict''))
      then RealDictCursor else PlainCursor)"

definition execute :: "env \<Rightarrow> connector \<Rightarrow> string \<Rightarrow> pyval \<Rightarrow> connector \<times> (error + row list)" where
  "execute E self sql return_type =
     (case conn_cursor self of
        Inl e \<Rightarrow> (self, Inl e)
      | Inr c \<Rightarrow>
          (let k = execute_cursor_kind return_type;
               self1 = emit (Execute c k sql PNone) self;
               records =
                 (case answer E sql PNone of
                    Inl e \<Rightarrow> Inl e
                  | Inr rp \<Rightarrow>
                      (case fetchall k rp of
                         Inl e \<Rightarrow> Inl e
                       | Inr rws \<Rightarrow>
                           (if \<not> truthy return_type then Inr rws
                            else comprehend (py_dict E) rws)))
           in case records of
                Inl e \<Rightarrow> (emit (Print (''execute() failed due to: '' @ error_str e)) self1, Inl e)
              | Inr rs \<Rightarrow> (self1, Inr rs)))"

subsection \<open>Reading\<close>

datatype cols_arg = ColsStr string | ColsList "string list"

text \<open>The bind values of a select: \<open>where[1] if where and len(where) == 2 else None\<close>.\<close>

definition select_params :: "where_cond option \<Rightarrow> pyval" where
  "select_params w =
     (case w of
        None \<Rightarrow> PNone
      | Some c \<Rightarrow> (if where_len c = 2 then hd (snd c) else PNone))"

definition retrieve_columns :: "cols_arg \<Rightarrow> string" where
  "retrieve_columns cols =
     (case cols of
        ColsStr s \<Rightarrow> (if s = ''all'' then ''*'' else s)
      | ColsList cs \<Rightarrow> rstrip_chr CHR '','' (join_str '','' cs))"

text \<open>The start of the slice in \<open>rows[len(rows) - limit if limit else 0:]\<close>.\<close>

definition retrieve_start :: "int option \<Rightarrow> nat \<Rightarrow> int" where
  "retrieve_start limit len =
     (case limit of
        None \<Rightarrow> 0
      | Some n \<Rightarrow> (if n \<noteq> 0 then int len - n else 0))"

definition retrieve ::
  "env \<Rightarrow> connector \<Rightarrow> string \<Rightarrow> cols_arg \<Rightarrow> where_cond option \<Rightarrow> string list option
    \<Rightarrow> int option \<Rightarrow> connector \<times> (error + row list)" where
  "retrieve E self table cols w ord limit =
     (let columns = retrieve_columns cols;
          sql = p_select table columns w ord limit None;
          params = select_params w
      in case p_execute E self sql params of
           (self1, Inl e) \<Rightarrow> (self1, Inl e)
         | (self1, Inr rp) \<Rightarrow>
             (case fetchall PlainCursor rp of
                Inl e \<Rightarrow> (self1, Inl e)
              | Inr rws \<Rightarrow>
                  (self1, Inr (py_slice_from (retrieve_start limit (length rws)) rws))))"

definition retrieve_dict_columns :: "cols_arg \<Rightarrow> string" where
  "retrieve_dict_columns cols =
     (case cols of
        ColsStr s \<Rightarrow> (if s = ''all'' \<or> s = ''*'' then ''*'' else s)
      | ColsList cs \<Rightarrow> rstrip_chr CHR '','' (join_str '','' cs))"

text \<open>\<open>retrieve_dict\<close> opens a cursor of its own and has no \<open>try\<close>.\<close>

definition retrieve_dict ::
  "env \<Rightarrow> connector \<Rightarrow> string \<Rightarrow> cols_arg \<Rightarrow> where_cond option \<Rightarrow> string list option
    \<Rightarrow> int option \<Rightarrow> connector \<times> (error + row list)" where
  "retrieve_dict E self table cols w ord limit =
     (case conn_cursor self of
        Inl e \<Rightarrow> (self, Inl e)
      | Inr c \<Rightarrow>
          (let columns = retrieve_dict_columns cols;
               sql = p_select table columns w ord limit None;
               params = select_params w;
               self1 = emit (Execute c RealDictCursor sql params) self
           in case answer E sql params of
                Inl e \<Rightarrow> (self1, Inl e)
              | Inr rp \<Rightarrow>
                  (case fetchall RealDictCursor rp of
                     Inl e \<Rightarrow> (self1, Inl e)
                   | Inr rws \<Rightarrow> (self1, comprehend (py_dict E) rws))))"

subsection \<open>Writing\<close>

text \<open>\<open>insert\<close>.\<close>

definition insert_row ::
  "env \<Rightarrow> connector \<Rightarrow> string \<Rightarrow> (string \<times> pyval) list \<Rightarrow> string option
    \<Rightarrow> connector \<times> (error + retval)" where
  "insert_row E self table data returning =
     (case p_format_insert data of
        (cols, vals) \<Rightarrow>
          (let sql = ''INSERT INTO '' @ table @ '' ('' @ cols @ '') VALUES('' @ vals @ '')'';
               sql = sql @ p_returning returning
           in case p_execute E self sql (PList (map snd data)) of
                (self1, Inl e) \<Rightarrow> (self1, Inl e)
              | (self1, Inr rp) \<Rightarrow>
                  (if returning \<noteq> None \<and> returning \<noteq> Some []
                   then (case fetchone PlainCursor rp of
                           Inl e \<Rightarrow> (self1, Inl e)
                         | Inr ro \<Rightarrow> (self1, Inr (ROne ro)))
                   else (self1, Inr (RCount (reply_rowcount rp))))))"

text \<open>
  The bind values of an update:
  \<open>list(data.values()) + where[1] if where and len(where) > 1 else list(data.values())\<close>.
  A list takes only a list on its right.
\<close>

definition update_params :: "(string \<times> pyval) list \<Rightarrow> where_cond option \<Rightarrow> error + pyval" where
  "update_params data w =
     (case w of
        None \<Rightarrow> Inr (PList (map snd data))
      | Some c \<Rightarrow>
          (if where_len c > 1
           then (case hd (snd c) of
                   PList vs \<Rightarrow> Inr (PList (map snd data @ vs))
                 | v \<Rightarrow> Inl (TypeError (''can only concatenate list (not '' @ [CHR 0x22]
                                           @ type_name v @ [CHR 0x22] @ '') to list'')))
           else Inr (PList (map snd data))))"

definition update ::
  "env \<Rightarrow> connector \<Rightarrow> string \<Rightarrow> (string \<times> pyval) list \<Rightarrow> where_cond option \<Rightarrow> string option
    \<Rightarrow> connector \<times> (error + retval)" where
  "update E self table data w returning =
     (let query = p_format_update data;
          sql = ''UPDATE '' @ table @ '' SET '' @ query;
          sql = sql @ p_where w @ p_returning returning
      in case update_params data w of
           Inl e \<Rightarrow> (self, Inl e)
         | Inr params \<Rightarrow>
             (case p_execute E self sql params of
                (self1, Inl e) \<Rightarrow> (self1, Inl e)
              | (self1, Inr rp) \<Rightarrow>
                  (if returning \<noteq> None \<and> returning \<noteq> Some []
                   then (case fetchall PlainCursor rp of
                           Inl e \<Rightarrow> (self1, Inl e)
                         | Inr rws \<Rightarrow> (self1, Inr (RRows rws)))
                   else (self1, Inr (RCount (reply_rowcount rp))))))"

subsection \<open>Tables from a columnar schema\<close>

definition DTYPES :: "(string \<times> string) list" where
  "DTYPES =
     [(''string'', ''VARCHAR(256)''),
      (''int'', ''INTEGER''),
      (''integer'', ''INTEGER''),
      (''double'', ''NUMERIC(18,0)'')]"

definition RESERVED_KEYWORDS :: "string list" where
  "RESERVED_KEYWORDS = [''year'']"

text \<open>
  The loop of \<open>create_table\<close> over \<open>df.dtypes\<close>, the pairs of a column name and a type
  tag, with \<open>table_schema\<close> as the accumulator. \<open>DTYPES[tag]\<close> raises on a missing key.
\<close>

fun create_table_loop :: "(string \<times> string) list \<Rightarrow> string \<Rightarrow> error + string" where
  "create_table_loop [] table_schema = Inr table_schema"
| "create_table_loop ((column, tag) # dtypes) table_schema =
     (case map_of DTYPES tag of
        None \<Rightarrow> Inl (KeyError tag)
      | Some datatype \<Rightarrow>
          create_table_loop dtypes
            (table_schema @
               (if column \<notin> set RESERVED_KEYWORDS
                then column @ '' '' @ datatype @ '',''
                else [CHR 0x22] @ column @ [CHR 0x22] @ '' '' @ datatype @ '','')))"

definition create_table_statement ::
  "(string \<times> string) list \<Rightarrow> string \<Rightarrow> string \<Rightarrow> string option \<Rightarrow> error + string" where
  "create_table_statement dtypes db_schema table_name pk_column =
     (case create_table_loop dtypes [] of
        Inl e \<Rightarrow> Inl e
      | Inr table_schema \<Rightarrow>
          (let table_schema = rstrip_chr CHR '','' table_schema
           in case pk_column of
                None \<Rightarrow>
                  Inr (''CREATE TABLE IF NOT EXISTS '' @ db_schema @ ''.'' @ table_name
                         @ '' ('' @ table_schema @ '');'')
              | Some pk \<Rightarrow>
                  (if pk \<noteq> []
                   then Inr (''CREATE TABLE IF NOT EXISTS '' @ db_schema @ ''.'' @ table_name
                               @ '' ('' @ table_schema @ ''), PRIMARY KEY ('' @ pk @ '');'')
                   else Inr (''CREATE TABLE IF NOT EXISTS '' @ db_schema @ ''.'' @ table_name
                               @ '' ('' @ table_schema @ '');''))))"

definition create_table ::
  "env \<Rightarrow> connector \<Rightarrow> (string \<times> string) list \<Rightarrow> string \<Rightarrow> string \<Rightarrow> string option
    \<Rightarrow> connector \<times> (error + unit)" where
  "create_table E self dtypes db_schema table_name pk_column =
     (case create_table_statement dtypes db_schema table_name pk_column of
        Inl e \<Rightarrow> (self, Inl e)
      | Inr statement \<Rightarrow>
          (case p_execute E self statement PNone of
             (self1, Inl e) \<Rightarrow> (self1, Inl e)
           | (self1, Inr rp) \<Rightarrow> (self1, Inr ())))"

subsection \<open>Credentials and connections\<close>

text \<open>\<open>assert cred is not None; return cred\<close>.\<close>

definition assert_cred :: "connector \<Rightarrow> pyval \<Rightarrow> connector \<times> (error + pyval)" where
  "assert_cred self cred = (if cred = PNone then (self, Inl AssertionError) else (self, Inr cred))"

text \<open>The \<open>except ClientError\<close> branch: one line for each of five codes, nothing for another.\<close>

definition client_error_diagnostic :: "connector \<Rightarrow> string \<Rightarrow> string \<Rightarrow> connector" where
  "client_error_diagnostic self code msg =
     (if code = ''ResourceNotFoundException''
      then emit (Print (''The requested secret '' @ secret_id self @ '' was not found'')) self
      else if code = ''InvalidRequestException''
      then emit (Print (''The request was invalid due to: '' @ msg)) self
      else if code = ''InvalidParameterException''
      then emit (Print (''The request had invalid params: '' @ msg)) self
      else if code = ''DecryptionFailure''
      then emit (Print (''The requested secret can'' @ [CHR 0x27]
                          @ ''t be decrypted using the provided KMS key: '' @ msg)) self
      else if code = ''InternalServiceError''
      then emit (Print (''An error occurred on service side: '' @ msg)) self
      else self)"

definition get_credentials :: "env \<Rightarrow> connector \<Rightarrow> connector \<times> (error + pyval)" where
  "get_credentials E self =
     (case secret_value E (secret_id self) of
        Inl e \<Rightarrow>
          (case e of
             ClientError code msg \<Rightarrow> assert_cred (client_error_diagnostic self code msg) PNone
           | _ \<Rightarrow> (self, Inl e))
      | Inr get_secret_value_response \<Rightarrow>
          (case map_of get_secret_value_response ''SecretString'' of
             None \<Rightarrow> assert_cred self PNone
           | Some secret \<Rightarrow>
               (case json_loads E secret of
                  Inl e \<Rightarrow> (self, Inl e)
                | Inr cred \<Rightarrow> assert_cred self cred)))"

text \<open>\<open>credentials[key]\<close>, where \<open>credentials\<close> may be \<open>None\<close>.\<close>

definition cred_get :: "(string \<times> pyval) list option \<Rightarrow> string \<Rightarrow> error + pyval" where
  "cred_get creds key =
     (case creds of
        None \<Rightarrow> Inl (TypeError (quoted ''NoneType'' @ '' object is not subscriptable''))
      | Some kvs \<Rightarrow> (case map_of kvs key of None \<Rightarrow> Inl (KeyError key) | Some v \<Rightarrow> Inr v))"

fun is_connect :: "event \<Rightarrow> bool" where
  "is_connect (Connect h p d u pw) = True"
| "is_connect _ = False"

text \<open>The number of the connection that the next \<open>psycopg2.connect\<close> makes.\<close>

definition next_conn :: "connector \<Rightarrow> nat" where
  "next_conn self = length (filter is_connect (trace self))"

text \<open>
  \<open>_init_conn\<close> stores the four credential fields and the database name in the object,
  one after the other, and connects.
\<close>

definition p_init_conn ::
  "env \<Rightarrow> connector \<Rightarrow> string \<Rightarrow> (string \<times> pyval) list option \<Rightarrow> connector \<times> (error + nat)" where
  "p_init_conn E self database creds =
     (case cred_get creds ''host'' of
        Inl e \<Rightarrow> (self, Inl e)
      | Inr h \<Rightarrow>
     (case cred_get creds ''port'' of
        Inl e \<Rightarrow> (self\<lparr>host := h\<rparr>, Inl e)
      | Inr p \<Rightarrow>
     (case cred_get creds ''username'' of
        Inl e \<Rightarrow> (self\<lparr>host := h, port := p\<rparr>, Inl e)
      | Inr u \<Rightarrow>
     (case cred_get creds ''password'' of
        Inl e \<Rightarrow> (self\<lparr>host := h, port := p, user := u\<rparr>, Inl e)
      | Inr pw \<Rightarrow>
          (let self1 = self\<lparr>host := h, port := p, user := u, pwd := pw, db := database\<rparr>;
               c = next_conn self1;
               self2 = emit (Connect h p database u pw) self1
           in case connect E h p database u pw of
                Some e \<Rightarrow> (self2, Inl e)
              | None \<Rightarrow> (self2, Inr c))))))"

text \<open>
  \<open>commit()\<close> on connection \<open>c\<close>: a closed connection raises, an open one commits
  unless the client fails.
\<close>

definition client_commit :: "env \<Rightarrow> connector \<Rightarrow> nat \<Rightarrow> connector \<times> (error + unit)" where
  "client_commit E self c =
     (let self1 = emit (Commit c) self
      in if conn_closed self c then (self1, Inl (InterfaceError ''connection already closed''))
         else (case commit_outcome E c of
                 Some e \<Rightarrow> (self1, Inl e)
               | None \<Rightarrow> (self1, Inr ())))"

text \<open>
  \<open>close\<close>: commit, close the cursor, close the connection. A connection object is
  true whether it is open or closed, so \<open>if self.conn\<close> asks whether the field is set.
\<close>

definition close :: "env \<Rightarrow> connector \<Rightarrow> connector \<times> (error + unit)" where
  "close E self =
     (case conn self of
        None \<Rightarrow> (self, Inr ())
      | Some c \<Rightarrow>
          (case client_commit E self c of
             (self1, Inl e) \<Rightarrow> (self1, Inl e)
           | (self1, Inr u) \<Rightarrow>
               (emit (ConnClose c) (emit (CursorClose (cursor self1)) self1), Inr ())))"

text \<open>
  \<open>switch_database\<close>: when the connection field is set, take the stored credentials and
  commit; then \<open>self.conn = self._init_conn(db_name, connection_properties)\<close>. No other
  field is assigned.
\<close>

definition switch_connect ::
  "env \<Rightarrow> connector \<Rightarrow> string \<Rightarrow> (string \<times> pyval) list option \<Rightarrow> connector \<times> (error + unit)" where
  "switch_connect E self db_name connection_properties =
     (case p_init_conn E self db_name connection_properties of
        (self2, Inl e) \<Rightarrow> (self2, Inl e)
      | (self2, Inr c') \<Rightarrow> (self2\<lparr>conn := Some c'\<rparr>, Inr ()))"

definition switch_database :: "env \<Rightarrow> connector \<Rightarrow> string \<Rightarrow> connector \<times> (error + unit)" where
  "switch_database E self db_name =
     (case conn self of
        None \<Rightarrow> switch_connect E self db_name None
      | Some c \<Rightarrow>
          (case client_commit E self c of
             (self1, Inl e) \<Rightarrow> (self1, Inl e)
           | (self1, Inr u) \<Rightarrow> switch_connect E self1 db_name (Some (credentials self))))"

subsection \<open>Reading a trace\<close>

text \<open>The lines printed, and the statements executed with their bind values, in order.\<close>

fun printed :: "event list \<Rightarrow> string list" where
  "printed [] = []"
| "printed (Print s # es) = s # printed es"
| "printed (_ # es) = printed es"

fun executions :: "event list \<Rightarrow> (string \<times> pyval) list" where
  "executions [] = []"
| "executions (Execute c k sql params # es) = (sql, params) # executions es"
| "executions (_ # es) = executions es"

subsection \<open>What the specification says of a column definition\<close>

text \<open>
  The column definition of \<open>create_table\<close> in the specification's words: a reserved
  name in double quotes, any other name bare, and the type of the fixed table.
\<close>

definition spec_column_type :: "string \<Rightarrow> string option" where
  "spec_column_type tag =
     (if tag = ''string'' then Some ''VARCHAR(256)''
      else if tag = ''int'' \<or> tag = ''integer'' then Some ''INTEGER''
      else if tag = ''double'' then Some ''NUMERIC(18,0)''
      else None)"

definition spec_column_definition :: "string \<times> string \<Rightarrow> string" where
  "spec_column_definition f =
     (if fst f = ''year'' then [CHR 0x22] @ fst f @ [CHR 0x22] else fst f)
       @ '' '' @ the (spec_column_type (snd f))"

subsection \<open>Sample objects and collaborators\<close>

text \<open>
  A connector as its constructor leaves it, after it opened connection 0 with the
  credentials of a mapping and made \<open>self.cursor\<close> from it.
\<close>

definition sample_credentials :: "(string \<times> pyval) list" where
  "sample_credentials =
     [(''host'', PStr ''rs.example''), (''port'', PInt 5439),
      (''username'', PStr ''admin''), (''password'', PStr ''pw'')]"

definition sample_connector :: connector where
  "sample_connector =
     \<lparr>secret_id = ''rs-secret'', credentials = sample_credentials,
      host = PStr ''rs.example'', port = PInt 5439, user = PStr ''admin'', pwd = PStr ''pw'',
      db = ''dev'', conn = Some 0, cursor = 0,
      trace = [Connect (PStr ''rs.example'') (PInt 5439) ''dev'' (PStr ''admin'') (PStr ''pw'')]\<rparr>"

definition sample_rows :: "pyval list list" where
  "sample_rows = [[PInt 1], [PInt 2], [PInt 3]]"

definition sample_result :: "pyval list list \<Rightarrow> db_result" where
  "sample_result rws = \<lparr>columns = [''id''], rows = rws, rowcount = int (length rws)\<rparr>"

text \<open>
  A server with the table \<open>t\<close> of three rows that honours \<open>LIMIT 2\<close>: the limited
  statement gets the first two rows of the unlimited one. Any other statement is refused.
\<close>

definition limit_answer :: "string \<Rightarrow> pyval \<Rightarrow> error + reply" where
  "limit_answer sql params =
     (if sql = ''SELECT * FROM t'' then Inr (ResultSet (sample_result sample_rows))
      else if sql = ''SELECT * FROM t LIMIT 2''
      then Inr (ResultSet (sample_result (take 2 sample_rows)))
      else Inl (DatabaseError ''syntax error''))"

text \<open>A server that accepts every statement and answers with a result set of one row.\<close>

definition ok_answer :: "string \<Rightarrow> pyval \<Rightarrow> error + reply" where
  "ok_answer sql params = Inr (ResultSet (sample_result [[PInt 7]]))"

text \<open>A server that accepts every statement as one that returns no rows and touches one row.\<close>

definition dml_answer :: "string \<Rightarrow> pyval \<Rightarrow> error + reply" where
  "dml_answer sql params = Inr (NoResultSet 1)"

text \<open>A client that raises on every statement.\<close>

definition failing_answer :: "string \<Rightarrow> pyval \<Rightarrow> error + reply" where
  "failing_answer sql params = Inl (DatabaseError ''connection lost'')"

text \<open>
  Secret stores: one whose secret is binary (the response has no \<open>SecretString\<close>), one
  that does not know the secret, one that denies access.
\<close>

definition binary_secret :: "string \<Rightarrow> error + (string \<times> string) list" where
  "binary_secret sid = Inr [(''Name'', sid), (''SecretBinary'', ''AAEC'')]"

definition missing_secret :: "string \<Rightarrow> error + (string \<times> string) list" where
  "missing_secret sid = Inl (ClientError ''ResourceNotFoundException'' ''no such secret'')"

definition denied_secret :: "string \<Rightarrow> error + (string \<times> string) list" where
  "denied_secret sid = Inl (ClientError ''AccessDeniedException'' ''not authorized'')"

definition sample_env ::
  "(string \<Rightarrow> error + (string \<times> string) list) \<Rightarrow> (string \<Rightarrow> pyval \<Rightarrow> error + reply) \<Rightarrow> env" where
  "sample_env store server =
     \<lparr>secret_value = store,
      json_loads = (\<lambda>s. Inr (PDict sample_credentials)),
      connect = (\<lambda>h p d u pw. None),
      commit_outcome = (\<lambda>c. None),
      answer = server,
      dict_of_tuple =
        (\<lambda>vs. Inl (TypeError ''cannot convert dictionary update sequence element #0 to a sequence''))\<rparr>"

subsection \<open>The diagnosed error codes\<close>

text \<open>The error codes for which \<open>get_credentials\<close> has a diagnostic line.\<close>

definition diagnosed_codes :: "string list" where
  "diagnosed_codes =
     [''ResourceNotFoundException'', ''InvalidRequestException'', ''InvalidParameterException'',
      ''DecryptionFailure'', ''InternalServiceError'']"

section \<open>Properties\<close>

subsection \<open>Helper facts\<close>

lemma executions_append: "executions (xs @ ys) = executions xs @ executions ys"
  by (induction xs rule: executions.induct) simp_all

lemma show_nat_digit: "n < 10 \<Longrightarrow> show_nat n = [digit_chr n]"
  by (simp add: show_nat.simps)

text \<open>Every call of \<open>_execute\<close> executes its statement once, whatever the outcome.\<close>

lemma executions_p_execute:
  "executions (trace (fst (p_execute E self sql params))) =
     executions (trace self) @ [(sql, params)]"
  by (cases "cursor_execute E (cursor_closed self) sql params")
    (simp_all add: p_execute_def emit_def executions_append)

lemma p_execute_open:
  "\<not> cursor_closed self \<Longrightarrow> answer E sql params = Inr rp \<Longrightarrow>
   p_execute E self sql params = (emit (Execute (cursor self) PlainCursor sql params) self, Inr rp)"
  by (simp add: p_execute_def cursor_execute_def)

lemma fst_p_execute_case:
  "(\<And>s rp. fst (k s rp) = s) \<Longrightarrow>
   fst (case p_execute E self sql params of (s, Inl e) \<Rightarrow> (s, Inl e) | (s, Inr rp) \<Rightarrow> k s rp) =
     fst (p_execute E self sql params)"
  by (cases "p_execute E self sql params") (simp split: sum.splits)

subsection \<open>The select builder\<close>

text \<open>
  C8 (as amended). The select builder emits the base clause \<open>SELECT cols FROM table\<close>
  and then, left to right, the WHERE, ORDER BY, LIMIT and OFFSET fragments. The fragment
  of an input that is given and true in Python's truth test is \<open>" WHERE p"\<close>,
  \<open>" ORDER BY c"\<close> or \<open>" ORDER BY c d"\<close>, \<open>" LIMIT n"\<close>, \<open>" OFFSET n"\<close>; the fragment
  of an input that is \<open>None\<close>, an empty order tuple, or a limit or offset of \<open>0\<close> is the
  empty string.
\<close>

theorem select_fragments_in_order:
  "p_select table cols w ord limit offset =
     ''SELECT '' @ cols @ '' FROM '' @ table
       @ (case w of None \<Rightarrow> [] | Some (p, rest) \<Rightarrow> '' WHERE '' @ p)
       @ (case ord of
            None \<Rightarrow> []
          | Some [] \<Rightarrow> []
          | Some [c] \<Rightarrow> '' ORDER BY '' @ c
          | Some (c # d # ds) \<Rightarrow> '' ORDER BY '' @ c @ '' '' @ d)
       @ (case limit of None \<Rightarrow> [] | Some n \<Rightarrow> if n = 0 then [] else '' LIMIT '' @ show_int n)
       @ (case offset of None \<Rightarrow> [] | Some n \<Rightarrow> if n = 0 then [] else '' OFFSET '' @ show_int n)"
proof -
  have w: "p_where w = (case w of None \<Rightarrow> [] | Some (p, rest) \<Rightarrow> '' WHERE '' @ p)"
    by (simp add: p_where_def where_len_def split: option.splits prod.splits)
  have o: "p_order ord =
      (case ord of
         None \<Rightarrow> []
       | Some [] \<Rightarrow> []
       | Some [c] \<Rightarrow> '' ORDER BY '' @ c
       | Some (c # d # ds) \<Rightarrow> '' ORDER BY '' @ c @ '' '' @ d)"
    by (cases ord rule: p_order.cases) simp_all
  have l: "p_limit limit =
      (case limit of None \<Rightarrow> [] | Some n \<Rightarrow> if n = 0 then [] else '' LIMIT '' @ show_int n)"
    by (simp add: p_limit_def split: option.splits)
  have f: "p_offset offset =
      (case offset of None \<Rightarrow> [] | Some n \<Rightarrow> if n = 0 then [] else '' OFFSET '' @ show_int n)"
    by (simp add: p_offset_def split: option.splits)
  show ?thesis
    unfolding p_select_def w o l f by simp
qed

theorem select_fragments_in_order_witness:
  "p_select ''t'' ''a,b'' (Some (''id=%s'', [PList [PInt 1]])) (Some [''a'', ''DESC'']) (Some 7) (Some 5)
     = ''SELECT a,b FROM t WHERE id=%s ORDER BY a DESC LIMIT 7 OFFSET 5''"
  using select_fragments_in_order
    [of "''t''" "''a,b''" "Some (''id=%s'', [PList [PInt 1]])" "Some [''a'', ''DESC'']" "Some 7" "Some 5"]
  by (simp add: show_int_def show_nat_digit digit_chr_def)

text \<open>
  C8 as it was stated fails: a limit of \<open>0\<close> and an offset of \<open>0\<close> are given, and the
  builder emits neither \<open>" LIMIT 0"\<close> nor \<open>" OFFSET 0"\<close>.
\<close>

theorem select_zero_limit_has_no_fragment:
  "p_select ''t'' ''*'' None None (Some 0) (Some 0) = ''SELECT * FROM t''
   \<and> p_select ''t'' ''*'' None None (Some 0) (Some 0) \<noteq> ''SELECT * FROM t LIMIT 0 OFFSET 0''"
  by (simp add: p_select_def p_where_def p_limit_def p_offset_def)

subsection \<open>Limits in \<open>retrieve\<close>\<close>


lemma fetch_row_plain: "fetch_row PlainCursor r = TupleRow"
  by (rule ext) (simp add: fetch_row_def)

lemma fetch_row_dict: "fetch_row RealDictCursor r = (\<lambda>vs. RealDictRow (mk_dict (zip (columns r) vs)))"
  by (rule ext) (simp add: fetch_row_def)

text \<open>
  What \<open>retrieve\<close> returns under a limit: the rows fetched for the statement it sent,
  which carries the \<open>LIMIT\<close> clause, sliced from \<open>len(rows) - limit\<close>.
\<close>

lemma retrieve_slices_fetched:
  assumes "\<not> cursor_closed self"
    and "answer E (p_select table (retrieve_columns cols) w ord limit None) (select_params w) =
           Inr (ResultSet r)"
  shows "snd (retrieve E self table cols w ord limit) =
           Inr (py_slice_from (retrieve_start limit (length (rows r))) (map TupleRow (rows r)))"
  using assms
  by (simp add: retrieve_def Let_def p_execute_open fetchall_def fetch_row_plain)




text \<open>
  C10. A limit or an offset of \<open>0\<close> is treated as absent: both clause builders return the
  empty string for \<open>0\<close>, and \<open>retrieve\<close> with \<open>limit=0\<close> does what it does with no limit
  and returns every fetched row.
\<close>

theorem zero_limit_is_no_limit:
  assumes "\<not> cursor_closed self"
    and "answer E (p_select table (retrieve_columns cols) w ord None None) (select_params w) =
           Inr (ResultSet r)"
  shows "p_limit (Some 0) = [] \<and> p_offset (Some 0) = []
       \<and> retrieve E self table cols w ord (Some 0) = retrieve E self table cols w ord None
       \<and> snd (retrieve E self table cols w ord (Some 0)) = Inr (map TupleRow (rows r))"
proof -
  have sel: "p_select table (retrieve_columns cols) w ord (Some 0) None =
             p_select table (retrieve_columns cols) w ord None None"
    by (simp add: p_select_def p_limit_def)
  have start: "retrieve_start (Some 0) = retrieve_start None"
    by (rule ext) (simp add: retrieve_start_def)
  have same: "retrieve E self table cols w ord (Some 0) = retrieve E self table cols w ord None"
    unfolding retrieve_def Let_def sel start by (rule refl)
  have "snd (retrieve E self table cols w ord None) = Inr (map TupleRow (rows r))"
    using retrieve_slices_fetched [OF assms]
    by (simp add: retrieve_start_def py_slice_from_def)
  with same show ?thesis
    by (simp add: p_limit_def p_offset_def)
qed

theorem zero_limit_is_no_limit_witness:
  "snd (retrieve (sample_env missing_secret limit_answer) sample_connector ''t'' (ColsStr ''*'')
          None None (Some 0))
     = Inr [TupleRow [PInt 1], TupleRow [PInt 2], TupleRow [PInt 3]]"
proof -
  have opn: "\<not> cursor_closed sample_connector"
    by (simp add: cursor_closed_def conn_closed_def sample_connector_def)
  have a: "answer (sample_env missing_secret limit_answer)
             (p_select ''t'' (retrieve_columns (ColsStr ''*'')) None None None None)
             (select_params None) = Inr (ResultSet (sample_result sample_rows))"
    by (simp add: p_select_def retrieve_columns_def p_where_def p_limit_def p_offset_def
        sample_env_def limit_answer_def)
  from zero_limit_is_no_limit [OF opn a, THEN conjunct2, THEN conjunct2, THEN conjunct2]
  show ?thesis
    by (simp add: sample_result_def sample_rows_def)
qed

subsection \<open>The cursor of \<open>execute\<close>\<close>

lemma conn_cursor_open:
  "conn self = Some c \<Longrightarrow> \<not> conn_closed self c \<Longrightarrow> conn_cursor self = Inr c"
  by (simp add: conn_cursor_def)

text \<open>
  C6. The condition \<open>return_type == 'd' or 'dict'\<close> is true for every \<open>return_type\<close>,
  \<open>None\<close> included, so \<open>execute\<close> on an open connection always runs the statement on
  a dict cursor and the branch of the plain cursor is never taken. With
  \<open>return_type=None\<close> the rows of a statement that has a result set come back as the
  cursor's column-name mappings, not as positional tuples; for a statement that has no
  result set \<open>fetchall\<close> raises inside the \<open>try\<close>, and the error is printed and
  re-raised.
\<close>

theorem execute_always_dict_cursor:
  assumes "conn self = Some c"
    and "\<not> conn_closed self c"
  shows "execute_cursor_kind return_type = RealDictCursor
       \<and> take (Suc (length (trace self))) (trace (fst (execute E self sql return_type))) =
           trace self @ [Execute c RealDictCursor sql PNone]
       \<and> (answer E sql PNone = Inr (ResultSet r) \<longrightarrow>
            execute E self sql PNone =
              (emit (Execute c RealDictCursor sql PNone) self,
               Inr (map (\<lambda>vs. RealDictRow (mk_dict (zip (columns r) vs))) (rows r))))
       \<and> (answer E sql PNone = Inr (NoResultSet n) \<longrightarrow>
            execute E self sql PNone =
              (emit (Print ''execute() failed due to: no results to fetch'')
                 (emit (Execute c RealDictCursor sql PNone) self),
               Inl (ProgrammingError ''no results to fetch'')))"
proof -
  have k: "execute_cursor_kind rt = RealDictCursor" for rt
    by (simp add: execute_cursor_kind_def py_or_def)
  note cc = conn_cursor_open [OF assms]
  have sent: "take (Suc (length (trace self))) (trace (fst (execute E self sql return_type))) =
      trace self @ [Execute c RealDictCursor sql PNone]"
    by (simp add: execute_def cc k Let_def emit_def split: sum.splits)
  have rs: "execute E self sql PNone =
      (emit (Execute c RealDictCursor sql PNone) self,
       Inr (map (\<lambda>vs. RealDictRow (mk_dict (zip (columns r) vs))) (rows r)))"
    if "answer E sql PNone = Inr (ResultSet r)"
    using that by (simp add: execute_def cc k Let_def fetchall_def fetch_row_dict)
  have nrs: "execute E self sql PNone =
      (emit (Print ''execute() failed due to: no results to fetch'')
         (emit (Execute c RealDictCursor sql PNone) self),
       Inl (ProgrammingError ''no results to fetch''))"
    if "answer E sql PNone = Inr (NoResultSet n)"
    using that by (simp add: execute_def cc k Let_def fetchall_def)
  from k sent rs nrs show ?thesis
    by blast
qed

theorem execute_always_dict_cursor_witness:
  "execute_cursor_kind PNone = RealDictCursor
   \<and> snd (execute (sample_env missing_secret ok_answer) sample_connector ''select 1'' PNone)
       = Inr [RealDictRow [(''id'', PInt 7)]]
   \<and> snd (execute (sample_env missing_secret dml_answer) sample_connector
             ''create table z (id integer)'' PNone)
       = Inl (ProgrammingError ''no results to fetch'')"
proof -
  have a: "conn sample_connector = Some 0"
    by (simp add: sample_connector_def)
  have o: "\<not> conn_closed sample_connector 0"
    by (simp add: conn_closed_def sample_connector_def)
  have b: "answer (sample_env missing_secret ok_answer) ''select 1'' PNone =
      Inr (ResultSet (sample_result [[PInt 7]]))"
    by (simp add: sample_env_def ok_answer_def)
  have d: "answer (sample_env missing_secret dml_answer) ''create table z (id integer)'' PNone =
      Inr (NoResultSet 1)"
    by (simp add: sample_env_def dml_answer_def)
  note t = execute_always_dict_cursor [OF a o]
  have 1: "execute_cursor_kind PNone = RealDictCursor"
    by (rule t [THEN conjunct1])
  have 2: "snd (execute (sample_env missing_secret ok_answer) sample_connector ''select 1'' PNone)
       = Inr [RealDictRow [(''id'', PInt 7)]]"
    using t [THEN conjunct2, THEN conjunct2, THEN conjunct1, THEN mp, OF b]
    by (simp add: sample_result_def mk_dict_def)
  have 3: "snd (execute (sample_env missing_secret dml_answer) sample_connector
             ''create table z (id integer)'' PNone)
       = Inl (ProgrammingError ''no results to fetch'')"
    using t [THEN conjunct2, THEN conjunct2, THEN conjunct2, THEN mp, OF d]
    by simp
  from 1 2 3 show ?thesis
    by (intro conjI)
qed

subsection \<open>The bind values of \<open>update\<close>\<close>

text \<open>
  C2. \<open>update\<close> with a where pair \<open>(p, vs)\<close> executes one statement,
  \<open>UPDATE table SET ... WHERE p\<close>, whose bind values are the values of \<open>data\<close> followed
  by \<open>vs\<close>; with no where pair the bind values are the values of \<open>data\<close> alone.
\<close>

theorem update_bind_values:
  "executions (trace (fst (update E self table data None returning))) =
     executions (trace self) @
       [(''UPDATE '' @ table @ '' SET '' @ p_format_update data @ p_returning returning,
         PList (map snd data))]
   \<and> executions (trace (fst (update E self table data (Some (p, [PList vs])) returning))) =
     executions (trace self) @
       [(''UPDATE '' @ table @ '' SET '' @ p_format_update data @ '' WHERE '' @ p
           @ p_returning returning,
         PList (map snd data @ vs))]"
proof -
  have a: "fst (update E self table data None returning) =
        fst (p_execute E self
               (''UPDATE '' @ table @ '' SET '' @ p_format_update data @ p_returning returning)
               (PList (map snd data)))"
    by (simp add: update_def update_params_def p_where_def Let_def)
      (rule fst_p_execute_case, simp split: sum.splits)
  have b: "fst (update E self table data (Some (p, [PList vs])) returning) =
        fst (p_execute E self
               (''UPDATE '' @ table @ '' SET '' @ p_format_update data @ '' WHERE '' @ p
                  @ p_returning returning)
               (PList (map snd data @ vs)))"
    by (simp add: update_def update_params_def p_where_def where_len_def Let_def)
      (rule fst_p_execute_case, simp split: sum.splits)
  show ?thesis
    by (simp only: a b executions_p_execute simp_thms)
qed

theorem update_bind_values_witness:
  "executions (trace (fst (update (sample_env missing_secret ok_answer) sample_connector ''t''
       [(''a'', PInt 1), (''b'', PStr ''x'')] (Some (''id=%s'', [PList [PInt 9]])) None)))
     = [(''UPDATE t SET a=%s,b=%s WHERE id=%s'', PList [PInt 1, PStr ''x'', PInt 9])]"
  using update_bind_values [of "sample_env missing_secret ok_answer" sample_connector "''t''"
      "[(''a'', PInt 1), (''b'', PStr ''x'')]" None "''id=%s''" "[PInt 9]"]
  by (simp add: sample_connector_def p_format_update_def p_returning_def)

subsection \<open>Joining and splitting at a separator\<close>

lemma split_str_no_sep: "c \<notin> set x \<Longrightarrow> split_str c x = [x]"
  by (induction x) auto

lemma split_str_append_sep: "c \<notin> set x \<Longrightarrow> split_str c (x @ c # ys) = x # split_str c ys"
  by (induction x) auto

lemma split_join_str:
  assumes "xs \<noteq> []" and "\<forall>x \<in> set xs. c \<notin> set x"
  shows "split_str c (join_str [c] xs) = xs"
  using assms
proof (induction "[c]" xs rule: join_str.induct)
  case 1
  then show ?case by simp
next
  case (2 x)
  then show ?case by (simp add: split_str_no_sep)
next
  case (3 x y ys)
  then show ?case by (simp add: split_str_append_sep)
qed

lemma map_const_replicate: "map (\<lambda>_. k) xs = replicate (length xs) k"
  by (induction xs) simp_all

subsection \<open>\<open>insert\<close>\<close>

lemma p_returning_cases:
  "p_returning returning =
     (case returning of None \<Rightarrow> [] | Some ret \<Rightarrow> if ret = [] then [] else '' RETURNING '' @ ret)"
  by (simp add: p_returning_def split: option.splits)

text \<open>
  C3. For a non-empty mapping \<open>data\<close>, \<open>_format_insert\<close> emits the keys of \<open>data\<close> in
  iteration order, joined by commas, and as many \<open>%s\<close> placeholders, joined by commas:
  the placeholder string read back at its commas is \<open>len(data)\<close> placeholders, and the
  column string read back at its commas is the list of keys (for column names that have no
  comma of their own). \<open>insert\<close> executes one statement,
  \<open>INSERT INTO table (columns) VALUES(placeholders)\<close> with \<open>RETURNING returning\<close>
  appended when \<open>returning\<close> is given, bound to the values of \<open>data\<close>. On an open cursor
  it returns \<open>fetchone()\<close>, the first row of the result set of the RETURNING clause, when
  \<open>returning\<close> is given, and the row count otherwise.
\<close>

theorem insert_columns_and_placeholders:
  assumes "data \<noteq> []"
  shows "p_format_insert data =
           (join_str '','' (map fst data), join_str '','' (replicate (length data) ''%s''))
       \<and> split_str CHR '','' (snd (p_format_insert data)) = replicate (length data) ''%s''
       \<and> length (split_str CHR '','' (snd (p_format_insert data))) = length (map fst data)
       \<and> ((\<forall>k \<in> set (map fst data). CHR '','' \<notin> set k) \<longrightarrow>
            split_str CHR '','' (fst (p_format_insert data)) = map fst data)
       \<and> executions (trace (fst (insert_row E self table data returning))) =
           executions (trace self) @
             [(''INSERT INTO '' @ table @ '' ('' @ join_str '','' (map fst data) @ '') VALUES(''
                 @ join_str '','' (replicate (length data) ''%s'') @ '')''
                 @ (case returning of
                      None \<Rightarrow> []
                    | Some ret \<Rightarrow> if ret = [] then [] else '' RETURNING '' @ ret),
               PList (map snd data))]
       \<and> (returning = Some ret \<and> ret \<noteq> [] \<and> \<not> cursor_closed self
            \<and> answer E (''INSERT INTO '' @ table @ '' ('' @ join_str '','' (map fst data)
                           @ '') VALUES('' @ join_str '','' (replicate (length data) ''%s'') @ '')''
                           @ '' RETURNING '' @ ret)
                  (PList (map snd data)) = Inr (ResultSet r) \<longrightarrow>
          snd (insert_row E self table data returning) =
            Inr (ROne (case rows r of [] \<Rightarrow> None | vs # _ \<Rightarrow> Some (TupleRow vs))))
       \<and> ((returning = None \<or> returning = Some []) \<and> \<not> cursor_closed self
            \<and> answer E (''INSERT INTO '' @ table @ '' ('' @ join_str '','' (map fst data)
                           @ '') VALUES('' @ join_str '','' (replicate (length data) ''%s'') @ '')'')
                  (PList (map snd data)) = Inr rp \<longrightarrow>
          snd (insert_row E self table data returning) = Inr (RCount (reply_rowcount rp)))"
proof -
  let ?ins = "''INSERT INTO '' @ table @ '' ('' @ join_str '','' (map fst data) @ '') VALUES(''
                @ join_str '','' (replicate (length data) ''%s'') @ '')''"
  have fmt: "p_format_insert data =
      (join_str '','' (map fst data), join_str '','' (replicate (length data) ''%s''))"
    by (simp add: p_format_insert_def map_const_replicate)
  have ph: "split_str CHR '','' (join_str '','' (replicate (length data) ''%s'')) =
      replicate (length data) ''%s''"
    using assms(1) by (intro split_join_str) auto
  have cols: "split_str CHR '','' (join_str '','' (map fst data)) = map fst data"
    if "\<forall>k \<in> set (map fst data). CHR '','' \<notin> set k"
    using assms(1) that by (intro split_join_str) auto
  have "fst (insert_row E self table data returning) =
      fst (p_execute E self (?ins @ p_returning returning) (PList (map snd data)))"
    by (simp add: insert_row_def fmt Let_def)
      (rule fst_p_execute_case, simp split: sum.splits)
  then have sent: "executions (trace (fst (insert_row E self table data returning))) =
      executions (trace self) @
        [(?ins @ (case returning of
                    None \<Rightarrow> []
                  | Some ret \<Rightarrow> if ret = [] then [] else '' RETURNING '' @ ret),
          PList (map snd data))]"
    by (simp add: executions_p_execute p_returning_cases)
  have one: "snd (insert_row E self table data returning) =
      Inr (ROne (case rows r of [] \<Rightarrow> None | vs # _ \<Rightarrow> Some (TupleRow vs)))"
    if "returning = Some ret" and "ret \<noteq> []" and "\<not> cursor_closed self"
      and "answer E (?ins @ '' RETURNING '' @ ret) (PList (map snd data)) = Inr (ResultSet r)"
    using that
    by (simp add: insert_row_def fmt Let_def p_returning_def p_execute_open fetchone_def
        fetch_row_plain split: list.splits)
  have cnt: "snd (insert_row E self table data returning) = Inr (RCount (reply_rowcount rp))"
    if "returning = None \<or> returning = Some []" and "\<not> cursor_closed self"
      and "answer E ?ins (PList (map snd data)) = Inr rp"
    using that
    by (auto simp: insert_row_def fmt Let_def p_returning_def p_execute_open)
  from fmt ph cols sent one cnt show ?thesis
    by simp
qed

theorem insert_columns_and_placeholders_witness:
  "p_format_insert [(''a'', PInt 1), (''b'', PStr ''x'')] = (''a,b'', ''%s,%s'')
   \<and> split_str CHR '','' ''%s,%s'' = [''%s'', ''%s'']
   \<and> split_str CHR '','' ''a,b'' = [''a'', ''b'']
   \<and> executions (trace (fst (insert_row (sample_env missing_secret ok_answer) sample_connector ''t''
            [(''a'', PInt 1), (''b'', PStr ''x'')] (Some ''id''))))
       = [(''INSERT INTO t (a,b) VALUES(%s,%s) RETURNING id'', PList [PInt 1, PStr ''x''])]
   \<and> snd (insert_row (sample_env missing_secret ok_answer) sample_connector ''t''
            [(''a'', PInt 1), (''b'', PStr ''x'')] (Some ''id''))
       = Inr (ROne (Some (TupleRow [PInt 7])))
   \<and> snd (insert_row (sample_env missing_secret dml_answer) sample_connector ''t''
            [(''a'', PInt 1), (''b'', PStr ''x'')] None)
       = Inr (RCount 1)"
proof -
  let ?data = "[(''a'', PInt 1), (''b'', PStr ''x'')]"
  have a: "?data \<noteq> []"
    by simp
  have opn: "\<not> cursor_closed sample_connector"
    by (simp add: cursor_closed_def conn_closed_def sample_connector_def)
  note t = insert_columns_and_placeholders [OF a]
  have fmt: "p_format_insert ?data = (''a,b'', ''%s,%s'')"
    using t [THEN conjunct1] by (simp add: numeral_2_eq_2)
  have ph: "split_str CHR '','' ''%s,%s'' = [''%s'', ''%s'']"
    using t [THEN conjunct2, THEN conjunct1] by (simp add: fmt numeral_2_eq_2)
  have cols: "split_str CHR '','' ''a,b'' = [''a'', ''b'']"
    using t [THEN conjunct2, THEN conjunct2, THEN conjunct2, THEN conjunct1] by (simp add: fmt)
  have sent: "executions (trace (fst (insert_row (sample_env missing_secret ok_answer)
        sample_connector ''t'' ?data (Some ''id''))))
       = [(''INSERT INTO t (a,b) VALUES(%s,%s) RETURNING id'', PList [PInt 1, PStr ''x''])]"
    using t [THEN conjunct2, THEN conjunct2, THEN conjunct2, THEN conjunct2, THEN conjunct1,
        of "sample_env missing_secret ok_answer" sample_connector "''t''" "Some ''id''"]
    by (simp add: sample_connector_def numeral_2_eq_2)
  have one: "snd (insert_row (sample_env missing_secret ok_answer) sample_connector ''t''
        ?data (Some ''id'')) = Inr (ROne (Some (TupleRow [PInt 7])))"
    using t [THEN conjunct2, THEN conjunct2, THEN conjunct2, THEN conjunct2, THEN conjunct2,
        THEN conjunct1, of "Some ''id''" "''id''" sample_connector
        "sample_env missing_secret ok_answer" "''t''" "sample_result [[PInt 7]]"] opn
    by (simp add: sample_env_def ok_answer_def sample_result_def)
  have cnt: "snd (insert_row (sample_env missing_secret dml_answer) sample_connector ''t''
        ?data None) = Inr (RCount 1)"
    using t [THEN conjunct2, THEN conjunct2, THEN conjunct2, THEN conjunct2, THEN conjunct2,
        THEN conjunct2, of None sample_connector "sample_env missing_secret dml_answer" "''t''"
        "NoResultSet 1"] opn
    by (simp add: sample_env_def dml_answer_def reply_rowcount_def)
  from fmt ph cols sent one cnt show ?thesis
    by (intro conjI)
qed

subsection \<open>\<open>create_table\<close>\<close>

lemma DTYPES_table: "map_of DTYPES tag = spec_column_type tag"
  by (simp add: DTYPES_def spec_column_type_def)

lemma reserved_year: "column \<in> set RESERVED_KEYWORDS \<longleftrightarrow> column = ''year''"
  by (simp add: RESERVED_KEYWORDS_def)

text \<open>With every tag in the table, the loop appends one definition and a comma per column.\<close>

lemma create_table_loop_known:
  "find (\<lambda>f. spec_column_type (snd f) = None) dtypes = None \<Longrightarrow>
   create_table_loop dtypes acc = Inr (acc @ concat (map (\<lambda>f. spec_column_definition f @ '','') dtypes))"
proof (induction dtypes arbitrary: acc)
  case Nil
  then show ?case by simp
next
  case (Cons f dtypes)
  obtain column tag where f: "f = (column, tag)"
    by (cases f)
  from Cons.prems f obtain ty where ty: "spec_column_type tag = Some ty"
    and rest: "find (\<lambda>f. spec_column_type (snd f) = None) dtypes = None"
    by (auto split: if_splits)
  show ?case
    by (simp add: f DTYPES_table ty Cons.IH [OF rest] reserved_year spec_column_definition_def)
qed

text \<open>The first tag outside the table ends the loop with a key failure.\<close>

lemma create_table_loop_unknown:
  "find (\<lambda>f. spec_column_type (snd f) = None) dtypes = Some f \<Longrightarrow>
   create_table_loop dtypes acc = Inl (KeyError (snd f))"
proof (induction dtypes arbitrary: acc)
  case Nil
  then show ?case by simp
next
  case (Cons g dtypes)
  obtain column tag where g: "g = (column, tag)"
    by (cases g)
  show ?case
  proof (cases "spec_column_type tag")
    case None
    with Cons.prems g have "f = (column, tag)"
      by simp
    with None g show ?thesis
      by (simp add: DTYPES_table)
  next
    case (Some ty)
    with Cons.prems g have "find (\<lambda>f. spec_column_type (snd f) = None) dtypes = Some f"
      by simp
    from Cons.IH [OF this] Some g show ?thesis
      by (simp add: DTYPES_table)
  qed
qed

lemma concat_sep_join:
  "xs \<noteq> [] \<Longrightarrow> concat (map (\<lambda>x. f x @ sep) xs) = join_str sep (map f xs) @ sep"
  by (induction xs rule: induct_list012) simp_all

lemma rstrip_chr_one: "s \<noteq> [] \<Longrightarrow> last s \<noteq> c \<Longrightarrow> rstrip_chr c (s @ [c]) = s"
proof -
  assume "s \<noteq> []" and "last s \<noteq> c"
  then obtain t x where s: "s = t @ [x]" and x: "x \<noteq> c"
    by (metis append_butlast_last_id)
  then show ?thesis
    by (simp add: rstrip_chr_def)
qed

lemma last_join_str:
  "xs \<noteq> [] \<Longrightarrow> \<forall>x \<in> set xs. x \<noteq> [] \<Longrightarrow> last (join_str sep xs) = last (last xs)"
proof (induction sep xs rule: join_str.induct)
  case (3 sep x y ys)
  then have "join_str sep (y # ys) \<noteq> []"
    by (cases ys) simp_all
  with 3 show ?case by simp
qed simp_all

lemma spec_column_definition_end:
  "spec_column_type (snd f) \<noteq> None \<Longrightarrow>
   spec_column_definition f \<noteq> [] \<and> last (spec_column_definition f) \<noteq> CHR '',''"
  by (auto simp: spec_column_definition_def spec_column_type_def split: if_splits)

lemma find_None_all: "find P xs = None \<Longrightarrow> x \<in> set xs \<Longrightarrow> \<not> P x"
  by (simp add: find_None_iff)

lemma table_schema_known:
  assumes "find (\<lambda>f. spec_column_type (snd f) = None) dtypes = None"
  shows "map_sum id (rstrip_chr CHR '','') (create_table_loop dtypes []) =
           Inr (join_str '','' (map spec_column_definition dtypes))"
proof (cases "dtypes = []")
  case True
  then show ?thesis by (simp add: rstrip_chr_def)
next
  case False
  let ?defs = "map spec_column_definition dtypes"
  have known: "spec_column_type (snd f) \<noteq> None" if "f \<in> set dtypes" for f
    using find_None_all [OF assms that] .
  have ne: "\<forall>x \<in> set ?defs. x \<noteq> []"
    using known spec_column_definition_end by auto
  have "last (join_str '','' ?defs) = last (last ?defs)"
    using False ne by (intro last_join_str) auto
  also have "last ?defs = spec_column_definition (last dtypes)"
    using False by (simp add: last_map)
  finally have l: "last (join_str '','' ?defs) \<noteq> CHR '',''"
    using known [of "last dtypes"] False spec_column_definition_end by auto
  have j: "join_str '','' ?defs \<noteq> []"
  proof
    assume e: "join_str '','' ?defs = []"
    obtain f fs where "dtypes = f # fs"
      using False by (cases dtypes) auto
    with e ne show False
      by (cases fs) auto
  qed
  have "create_table_loop dtypes [] = Inr (join_str '','' ?defs @ '','')"
    using create_table_loop_known [OF assms, of "[]"] concat_sep_join [OF False, of spec_column_definition "'',''"]
    by simp
  then show ?thesis
    using rstrip_chr_one [OF j l] by simp
qed

text \<open>
  C7. \<open>create_table\<close> executes one statement,
  \<open>CREATE TABLE IF NOT EXISTS schema.table (definitions);\<close>, whose definitions are,
  for each column of the columnar schema, its name (in double quotes when the name is the
  reserved word \<open>year\<close>, bare otherwise), a space and the type that the fixed table
  gives to its tag (\<open>string\<close>: \<open>VARCHAR(256)\<close>, \<open>int\<close> and \<open>integer\<close>:
  \<open>INTEGER\<close>, \<open>double\<close>: \<open>NUMERIC(18,0)\<close>), joined by commas. The first tag
  outside the table raises a key failure, and no statement is executed.
\<close>

theorem create_table_columns_and_types:
  "(find (\<lambda>f. spec_column_type (snd f) = None) dtypes = None \<longrightarrow>
      executions (trace (fst (create_table E self dtypes db_schema table_name None))) =
        executions (trace self) @
          [(''CREATE TABLE IF NOT EXISTS '' @ db_schema @ ''.'' @ table_name @ '' (''
              @ join_str '','' (map spec_column_definition dtypes) @ '');'', PNone)]
    \<and> (pk \<noteq> [] \<longrightarrow>
        executions (trace (fst (create_table E self dtypes db_schema table_name (Some pk)))) =
          executions (trace self) @
            [(''CREATE TABLE IF NOT EXISTS '' @ db_schema @ ''.'' @ table_name @ '' (''
                @ join_str '','' (map spec_column_definition dtypes) @ ''), PRIMARY KEY ('' @ pk
                @ '');'', PNone)]))
   \<and> (find (\<lambda>f. spec_column_type (snd f) = None) dtypes = Some f \<longrightarrow>
        create_table E self dtypes db_schema table_name pk_column = (self, Inl (KeyError (snd f))))"
proof (intro conjI impI)
  assume known: "find (\<lambda>f. spec_column_type (snd f) = None) dtypes = None"
  from table_schema_known [OF known]
  obtain ts where ts: "create_table_loop dtypes [] = Inr ts"
    and strip: "rstrip_chr CHR '','' ts = join_str '','' (map spec_column_definition dtypes)"
    by (cases "create_table_loop dtypes []") auto
  have sent: "executions (trace (fst (create_table E self dtypes db_schema table_name pkc))) =
      executions (trace self) @ [(statement, PNone)]"
    if "create_table_statement dtypes db_schema table_name pkc = Inr statement"
    for pkc statement
  proof -
    have "fst (create_table E self dtypes db_schema table_name pkc) =
        fst (p_execute E self statement PNone)"
      by (simp add: create_table_def that) (rule fst_p_execute_case, simp)
    then show ?thesis
      by (simp add: executions_p_execute)
  qed
  show "executions (trace (fst (create_table E self dtypes db_schema table_name None))) =
        executions (trace self) @
          [(''CREATE TABLE IF NOT EXISTS '' @ db_schema @ ''.'' @ table_name @ '' (''
              @ join_str '','' (map spec_column_definition dtypes) @ '');'', PNone)]"
    by (rule sent) (simp add: create_table_statement_def ts strip)
  show "executions (trace (fst (create_table E self dtypes db_schema table_name (Some pk)))) =
          executions (trace self) @
            [(''CREATE TABLE IF NOT EXISTS '' @ db_schema @ ''.'' @ table_name @ '' (''
                @ join_str '','' (map spec_column_definition dtypes) @ ''), PRIMARY KEY ('' @ pk
                @ '');'', PNone)]"
    if "pk \<noteq> []"
    by (rule sent) (simp add: create_table_statement_def ts strip that)
next
  assume "find (\<lambda>f. spec_column_type (snd f) = None) dtypes = Some f"
  from create_table_loop_unknown [OF this, of "[]"]
  show "create_table E self dtypes db_schema table_name pk_column = (self, Inl (KeyError (snd f)))"
    by (simp add: create_table_def create_table_statement_def)
qed

theorem create_table_columns_and_types_witness:
  "executions (trace (fst (create_table (sample_env missing_secret dml_answer) sample_connector
       [(''id'', ''int''), (''year'', ''string''), (''v'', ''double'')] ''s'' ''t'' None)))
     = [(''CREATE TABLE IF NOT EXISTS s.t (id INTEGER,'' @ [CHR 0x22] @ ''year'' @ [CHR 0x22]
           @ '' VARCHAR(256),v NUMERIC(18,0));'', PNone)]
   \<and> create_table (sample_env missing_secret dml_answer) sample_connector
        [(''id'', ''int''), (''Year'', ''float''), (''v'', ''double'')] ''s'' ''t'' None
     = (sample_connector, Inl (KeyError ''float''))"
proof -
  have a: "find (\<lambda>f. spec_column_type (snd f) = None)
             [(''id'', ''int''), (''year'', ''string''), (''v'', ''double'')] = None"
    by (simp add: spec_column_type_def)
  have b: "find (\<lambda>f. spec_column_type (snd f) = None)
             [(''id'', ''int''), (''Year'', ''float''), (''v'', ''double'')] = Some (''Year'', ''float'')"
    by (simp add: spec_column_type_def)
  have 1: "executions (trace (fst (create_table (sample_env missing_secret dml_answer)
       sample_connector [(''id'', ''int''), (''year'', ''string''), (''v'', ''double'')] ''s'' ''t'' None)))
     = [(''CREATE TABLE IF NOT EXISTS s.t (id INTEGER,'' @ [CHR 0x22] @ ''year'' @ [CHR 0x22]
           @ '' VARCHAR(256),v NUMERIC(18,0));'', PNone)]"
    using create_table_columns_and_types
      [THEN conjunct1, THEN mp, OF a, THEN conjunct1,
       of "sample_env missing_secret dml_answer" sample_connector "''s''" "''t''"]
    by (simp add: spec_column_definition_def spec_column_type_def sample_connector_def)
  have 2: "create_table (sample_env missing_secret dml_answer) sample_connector
        [(''id'', ''int''), (''Year'', ''float''), (''v'', ''double'')] ''s'' ''t'' None
     = (sample_connector, Inl (KeyError ''float''))"
    using create_table_columns_and_types [THEN conjunct2, THEN mp, OF b]
    by simp
  from 1 2 show ?thesis
    by (rule conjI)
qed

subsection \<open>\<open>get_credentials\<close>\<close>

lemma client_error_diagnostic_listed:
  assumes "code \<in> set diagnosed_codes"
  shows "\<exists>line. client_error_diagnostic self code msg = emit (Print line) self"
proof -
  have "code = ''ResourceNotFoundException'' \<or> code = ''InvalidRequestException''
      \<or> code = ''InvalidParameterException'' \<or> code = ''DecryptionFailure''
      \<or> code = ''InternalServiceError''"
    using assms by (simp add: diagnosed_codes_def)
  then show ?thesis
    by (elim disjE) (rule exI, simp add: client_error_diagnostic_def)+
qed

lemma client_error_diagnostic_unlisted:
  "code \<notin> set diagnosed_codes \<Longrightarrow> client_error_diagnostic self code msg = self"
  by (simp add: diagnosed_codes_def client_error_diagnostic_def)

text \<open>
  C4 (as amended). \<open>get_credentials\<close> never returns \<open>None\<close>. When the secret store
  raises a \<open>ClientError\<close>, or its response has no \<open>SecretString\<close>, the call fails with
  an assertion failure. A diagnostic line is printed before the assertion fails only for a
  \<open>ClientError\<close> whose code is one of the five the code lists; for any other code and
  for a response with no \<open>SecretString\<close> nothing is printed. An exception of the store
  that is no \<open>ClientError\<close> propagates as it is, with no diagnostic and no assertion.
\<close>

theorem get_credentials_fails_fast:
  "snd (get_credentials E self) \<noteq> Inr PNone
   \<and> (secret_value E (secret_id self) = Inl (ClientError code msg) \<longrightarrow>
        snd (get_credentials E self) = Inl AssertionError
        \<and> (code \<in> set diagnosed_codes \<longrightarrow>
             (\<exists>line. fst (get_credentials E self) = emit (Print line) self))
        \<and> (code \<notin> set diagnosed_codes \<longrightarrow> fst (get_credentials E self) = self))
   \<and> (secret_value E (secret_id self) = Inr response \<and> map_of response ''SecretString'' = None \<longrightarrow>
        get_credentials E self = (self, Inl AssertionError))
   \<and> (secret_value E (secret_id self) = Inl e \<and> (\<forall>c m. e \<noteq> ClientError c m) \<longrightarrow>
        get_credentials E self = (self, Inl e))"
proof (intro conjI impI)
  show "snd (get_credentials E self) \<noteq> Inr PNone"
    by (simp add: get_credentials_def assert_cred_def split: sum.splits error.splits option.splits)
next
  assume ce: "secret_value E (secret_id self) = Inl (ClientError code msg)"
  then have g: "get_credentials E self = (client_error_diagnostic self code msg, Inl AssertionError)"
    by (simp add: get_credentials_def assert_cred_def)
  show "snd (get_credentials E self) = Inl AssertionError"
    by (simp add: g)
  show "\<exists>line. fst (get_credentials E self) = emit (Print line) self"
    if "code \<in> set diagnosed_codes"
    using client_error_diagnostic_listed [OF that] by (simp add: g)
  show "fst (get_credentials E self) = self" if "code \<notin> set diagnosed_codes"
    using client_error_diagnostic_unlisted [OF that] by (simp add: g)
next
  assume "secret_value E (secret_id self) = Inr response \<and> map_of response ''SecretString'' = None"
  then show "get_credentials E self = (self, Inl AssertionError)"
    by (simp add: get_credentials_def assert_cred_def)
next
  assume "secret_value E (secret_id self) = Inl e \<and> (\<forall>c m. e \<noteq> ClientError c m)"
  then show "get_credentials E self = (self, Inl e)"
    by (cases e) (simp_all add: get_credentials_def)
qed

theorem get_credentials_fails_fast_witness:
  "get_credentials (sample_env missing_secret ok_answer) sample_connector
     = (emit (Print ''The requested secret rs-secret was not found'') sample_connector,
        Inl AssertionError)
   \<and> get_credentials (sample_env denied_secret ok_answer) sample_connector
     = (sample_connector, Inl AssertionError)
   \<and> get_credentials (sample_env binary_secret ok_answer) sample_connector
     = (sample_connector, Inl AssertionError)
   \<and> get_credentials (sample_env (\<lambda>sid. Inl (OtherError ''endpoint unreachable'')) ok_answer)
        sample_connector
     = (sample_connector, Inl (OtherError ''endpoint unreachable''))"
proof -
  have sid: "secret_id sample_connector = ''rs-secret''"
    by (simp add: sample_connector_def)
  have 1: "get_credentials (sample_env missing_secret ok_answer) sample_connector
     = (emit (Print ''The requested secret rs-secret was not found'') sample_connector,
        Inl AssertionError)"
  proof -
    have s: "secret_value (sample_env missing_secret ok_answer) (secret_id sample_connector) =
        Inl (ClientError ''ResourceNotFoundException'' ''no such secret'')"
      by (simp add: sample_env_def missing_secret_def)
    have "snd (get_credentials (sample_env missing_secret ok_answer) sample_connector) =
        Inl AssertionError"
      using get_credentials_fails_fast [THEN conjunct2, THEN conjunct1, THEN mp, OF s]
      by (rule conjunct1)
    moreover have "fst (get_credentials (sample_env missing_secret ok_answer) sample_connector) =
        emit (Print ''The requested secret rs-secret was not found'') sample_connector"
      by (simp add: get_credentials_def sample_env_def missing_secret_def assert_cred_def
          client_error_diagnostic_def sid)
    ultimately show ?thesis
      by (simp add: prod_eq_iff)
  qed
  have 2: "get_credentials (sample_env denied_secret ok_answer) sample_connector
     = (sample_connector, Inl AssertionError)"
  proof -
    have s: "secret_value (sample_env denied_secret ok_answer) (secret_id sample_connector) =
        Inl (ClientError ''AccessDeniedException'' ''not authorized'')"
      by (simp add: sample_env_def denied_secret_def)
    have m: "''AccessDeniedException'' \<notin> set diagnosed_codes"
      by (simp add: diagnosed_codes_def)
    note t = get_credentials_fails_fast [THEN conjunct2, THEN conjunct1, THEN mp, OF s]
    from t [THEN conjunct1] t [THEN conjunct2, THEN conjunct2, THEN mp, OF m]
    show ?thesis
      by (simp add: prod_eq_iff)
  qed
  have 3: "get_credentials (sample_env binary_secret ok_answer) sample_connector
     = (sample_connector, Inl AssertionError)"
  proof -
    have s: "secret_value (sample_env binary_secret ok_answer) (secret_id sample_connector) =
        Inr [(''Name'', ''rs-secret''), (''SecretBinary'', ''AAEC'')]
        \<and> map_of [(''Name'', ''rs-secret''), (''SecretBinary'', ''AAEC'')] ''SecretString'' = None"
      by (simp add: sample_env_def binary_secret_def sid)
    show ?thesis
      by (rule get_credentials_fails_fast
          [THEN conjunct2, THEN conjunct2, THEN conjunct1, THEN mp, OF s])
  qed
  have 4: "get_credentials (sample_env (\<lambda>sid. Inl (OtherError ''endpoint unreachable'')) ok_answer)
        sample_connector
     = (sample_connector, Inl (OtherError ''endpoint unreachable''))"
  proof -
    have s: "secret_value (sample_env (\<lambda>sid. Inl (OtherError ''endpoint unreachable'')) ok_answer)
          (secret_id sample_connector) = Inl (OtherError ''endpoint unreachable'')
        \<and> (\<forall>c m. OtherError ''endpoint unreachable'' \<noteq> ClientError c m)"
      by (simp add: sample_env_def)
    show ?thesis
      by (rule get_credentials_fails_fast
          [THEN conjunct2, THEN conjunct2, THEN conjunct2, THEN mp, OF s])
  qed
  from 1 2 3 4 show ?thesis
    by (intro conjI)
qed

text \<open>
  C4 as it was stated fails: for a secret with no \<open>SecretString\<close> the assertion
  fails and no diagnostic was printed before it.
\<close>

theorem get_credentials_silent_assertion:
  "snd (get_credentials (sample_env binary_secret ok_answer) sample_connector) = Inl AssertionError
   \<and> printed (trace (fst (get_credentials (sample_env binary_secret ok_answer) sample_connector))) = []"
  by (simp add: get_credentials_def sample_env_def binary_secret_def assert_cred_def
      sample_connector_def)

subsection \<open>\<open>switch_database\<close>\<close>

text \<open>
  C5. \<open>switch_database\<close> does not close the prior session. On the sample connector,
  which holds connection 0 to \<open>dev\<close>, \<open>switch_database('other')\<close> commits connection 0
  and opens connection 1 with the stored credentials, which it leaves unchanged; it
  calls neither \<open>close\<close> of the connection nor of the cursor, so connection 0 stays open,
  and \<open>self.cursor\<close> stays the cursor of connection 0: a \<open>retrieve\<close> after the switch
  runs on connection 0. The method \<open>close\<close> commits and closes both, and a
  \<open>switch_database\<close> after it fails at the commit.
\<close>

theorem switch_database_leaves_session_open:
  "snd (switch_database (sample_env missing_secret limit_answer) sample_connector ''other'') = Inr ()
   \<and> trace (fst (switch_database (sample_env missing_secret limit_answer) sample_connector ''other'')) =
       [Connect (PStr ''rs.example'') (PInt 5439) ''dev'' (PStr ''admin'') (PStr ''pw''),
        Commit 0,
        Connect (PStr ''rs.example'') (PInt 5439) ''other'' (PStr ''admin'') (PStr ''pw'')]
   \<and> credentials (fst (switch_database (sample_env missing_secret limit_answer) sample_connector
         ''other'')) = credentials sample_connector
   \<and> conn (fst (switch_database (sample_env missing_secret limit_answer) sample_connector
         ''other'')) = Some 1
   \<and> cursor (fst (switch_database (sample_env missing_secret limit_answer) sample_connector
         ''other'')) = 0
   \<and> \<not> conn_closed (fst (switch_database (sample_env missing_secret limit_answer) sample_connector
         ''other'')) 0
   \<and> \<not> cursor_closed (fst (switch_database (sample_env missing_secret limit_answer)
         sample_connector ''other''))
   \<and> trace (fst (retrieve (sample_env missing_secret limit_answer)
         (fst (switch_database (sample_env missing_secret limit_answer) sample_connector ''other''))
         ''t'' (ColsStr ''all'') None None None)) =
       [Connect (PStr ''rs.example'') (PInt 5439) ''dev'' (PStr ''admin'') (PStr ''pw''),
        Commit 0,
        Connect (PStr ''rs.example'') (PInt 5439) ''other'' (PStr ''admin'') (PStr ''pw''),
        Execute 0 PlainCursor ''SELECT * FROM t'' PNone]
   \<and> trace (fst (close (sample_env missing_secret limit_answer) sample_connector)) =
       [Connect (PStr ''rs.example'') (PInt 5439) ''dev'' (PStr ''admin'') (PStr ''pw''),
        Commit 0, CursorClose 0, ConnClose 0]
   \<and> snd (switch_database (sample_env missing_secret limit_answer)
         (fst (close (sample_env missing_secret limit_answer) sample_connector)) ''other'') =
       Inl (InterfaceError ''connection already closed'')"
proof -
  let ?E = "sample_env missing_secret limit_answer"
  have sw: "switch_database ?E sample_connector ''other'' =
      (sample_connector\<lparr>db := ''other'', conn := Some 1,
         trace := [Connect (PStr ''rs.example'') (PInt 5439) ''dev'' (PStr ''admin'') (PStr ''pw''),
                   Commit 0,
                   Connect (PStr ''rs.example'') (PInt 5439) ''other'' (PStr ''admin'') (PStr ''pw'')]\<rparr>,
       Inr ())"
    by (simp add: switch_database_def switch_connect_def client_commit_def conn_closed_def
        p_init_conn_def cred_get_def sample_connector_def sample_credentials_def sample_env_def
        emit_def next_conn_def Let_def)
  have cl: "close ?E sample_connector =
      (sample_connector\<lparr>
         trace := [Connect (PStr ''rs.example'') (PInt 5439) ''dev'' (PStr ''admin'') (PStr ''pw''),
                   Commit 0, CursorClose 0, ConnClose 0]\<rparr>,
       Inr ())"
    by (simp add: close_def client_commit_def conn_closed_def sample_connector_def sample_env_def
        emit_def Let_def)
  have after: "trace (fst (retrieve ?E (fst (switch_database ?E sample_connector ''other''))
         ''t'' (ColsStr ''all'') None None None)) =
       [Connect (PStr ''rs.example'') (PInt 5439) ''dev'' (PStr ''admin'') (PStr ''pw''),
        Commit 0,
        Connect (PStr ''rs.example'') (PInt 5439) ''other'' (PStr ''admin'') (PStr ''pw''),
        Execute 0 PlainCursor ''SELECT * FROM t'' PNone]"
    unfolding sw fst_conv
    by (simp add: retrieve_def retrieve_columns_def select_params_def p_select_def p_where_def
        p_limit_def p_offset_def p_execute_def cursor_execute_def cursor_closed_def
        conn_closed_def sample_connector_def sample_env_def limit_answer_def fetchall_def
        emit_def Let_def)
  have again: "snd (switch_database ?E (fst (close ?E sample_connector)) ''other'') =
       Inl (InterfaceError ''connection already closed'')"
    unfolding cl fst_conv
    by (simp add: switch_database_def client_commit_def conn_closed_def sample_connector_def
        emit_def Let_def)
  have "credentials (fst (switch_database ?E sample_connector ''other'')) = credentials sample_connector"
    and "conn (fst (switch_database ?E sample_connector ''other'')) = Some 1"
    and "cursor (fst (switch_database ?E sample_connector ''other'')) = 0"
    and "\<not> conn_closed (fst (switch_database ?E sample_connector ''other'')) 0"
    and "\<not> cursor_closed (fst (switch_database ?E sample_connector ''other''))"
    unfolding sw fst_conv
    by (simp_all add: sample_connector_def conn_closed_def cursor_closed_def)
  with after again show ?thesis
    unfolding sw cl fst_conv snd_conv by simp
qed

subsection \<open>Errors of the database client\<close>

text \<open>
  C9. \<open>retrieve_dict\<close> does not log the client's error. On the sample connector with a
  client that raises on the statement, \<open>retrieve_dict\<close> executes the statement once and
  re-raises the error unchanged with nothing printed, where \<open>retrieve\<close>, which runs the
  same statement through \<open>_execute\<close>, prints \<open>execute() failed due to: ...\<close> before it
  re-raises.
\<close>

theorem retrieve_dict_raises_unlogged:
  "retrieve_dict (sample_env missing_secret failing_answer) sample_connector ''t''
       (ColsStr ''all'') None None None =
     (emit (Execute 0 RealDictCursor ''SELECT * FROM t'' PNone) sample_connector,
      Inl (DatabaseError ''connection lost''))
   \<and> printed (trace (fst (retrieve_dict (sample_env missing_secret failing_answer) sample_connector
          ''t'' (ColsStr ''all'') None None None))) = []
   \<and> retrieve (sample_env missing_secret failing_answer) sample_connector ''t''
       (ColsStr ''all'') None None None =
     (emit (Print ''execute() failed due to: connection lost'')
        (emit (Execute 0 PlainCursor ''SELECT * FROM t'' PNone) sample_connector),
      Inl (DatabaseError ''connection lost''))
   \<and> printed (trace (fst (retrieve (sample_env missing_secret failing_answer) sample_connector
          ''t'' (ColsStr ''all'') None None None))) = [''execute() failed due to: connection lost'']"
proof -
  let ?E = "sample_env missing_secret failing_answer"
  have sel: "p_select ''t'' ''*'' None None None None = ''SELECT * FROM t''"
    by (simp add: p_select_def p_where_def p_limit_def p_offset_def)
  have c: "conn_cursor sample_connector = Inr 0"
    by (simp add: conn_cursor_def conn_closed_def sample_connector_def)
  have o: "\<not> cursor_closed sample_connector" and cur: "cursor sample_connector = 0"
    by (simp_all add: cursor_closed_def conn_closed_def sample_connector_def)
  have f: "answer ?E sql params = Inl (DatabaseError ''connection lost'')" for sql params
    by (simp add: sample_env_def failing_answer_def)
  have d: "retrieve_dict ?E sample_connector ''t'' (ColsStr ''all'') None None None =
     (emit (Execute 0 RealDictCursor ''SELECT * FROM t'' PNone) sample_connector,
      Inl (DatabaseError ''connection lost''))"
    by (simp add: retrieve_dict_def retrieve_dict_columns_def select_params_def sel c f Let_def)
  have r: "retrieve ?E sample_connector ''t'' (ColsStr ''all'') None None None =
     (emit (Print ''execute() failed due to: connection lost'')
        (emit (Execute 0 PlainCursor ''SELECT * FROM t'' PNone) sample_connector),
      Inl (DatabaseError ''connection lost''))"
    by (simp add: retrieve_def retrieve_columns_def select_params_def sel p_execute_def
        cursor_execute_def o cur f Let_def)
  show ?thesis
    by (simp add: d r) (simp add: emit_def sample_connector_def)
qed

end
